theory Spec2Isabelle
  imports Complex_Main "HOL-Library.Word"
begin

section \<open>JavaScript strings and numbers\<close>

text \<open>
  A JavaScript string is a sequence of UTF-16 code units. The regular expressions of
  the component carry no \<open>u\<close> flag, so they work on code units too.
\<close>

type_synonym jschar = "16 word"
type_synonym jsstring = "jschar list"

abbreviation CH_COMMA :: jschar where "CH_COMMA \<equiv> 0x2C"
abbreviation CH_MINUS :: jschar where "CH_MINUS \<equiv> 0x2D"
abbreviation CH_DOT :: jschar where "CH_DOT \<equiv> 0x2E"
abbreviation CH_FW_DOT :: jschar where "CH_FW_DOT \<equiv> 0xFF0E"
abbreviation CH_FW_COMMA :: jschar where "CH_FW_COMMA \<equiv> 0xFF0C"
abbreviation CH_PROLONGED :: jschar where "CH_PROLONGED \<equiv> 0x30FC"

text \<open>
  A JavaScript number: an IEEE double, kept as its exact rational value, with the
  special values apart. \<open>Fin 0\<close> is \<open>+0\<close>.
\<close>

datatype jsnum = NaN | PosInf | NegInf | NegZero | Fin rat

section \<open>The built-in functions the component calls\<close>

text \<open>
  They are modelled from ECMA-262 (\<open>Number\<close>, \<open>isNaN\<close>, \<open>split\<close>, \<open>toFixed\<close>, the
  relational operators) and ECMA-402 (\<open>toLocaleString\<close> for the locale \<open>en-US\<close>).
\<close>

datatype jserror = RangeError

subsection \<open>\<open>Number(string)\<close>\<close>

definition isDigit :: "jschar \<Rightarrow> bool" where
  "isDigit c = (0x30 \<le> c \<and> c \<le> 0x39)"

definition digitVal :: "jschar \<Rightarrow> nat" where
  "digitVal c = unat (c - 0x30)"

definition digitsVal :: "jsstring \<Rightarrow> nat" where
  "digitsVal ds = foldl (\<lambda>a c. 10 * a + digitVal c) 0 ds"

text \<open>The characters that \<open>StrWhiteSpaceChar\<close> admits (white space and line terminators).\<close>

definition isStrWhiteSpaceChar :: "jschar \<Rightarrow> bool" where
  "isStrWhiteSpaceChar c =
     (c \<in> set [0x09, 0x0A, 0x0B, 0x0C, 0x0D, 0x20, 0xA0, 0x1680, 0x2028, 0x2029,
                0x202F, 0x205F, 0x3000, 0xFEFF]
      \<or> (0x2000 \<le> c \<and> c \<le> 0x200A))"

definition trimString :: "jsstring \<Rightarrow> jsstring" where
  "trimString s = rev (dropWhile isStrWhiteSpaceChar (rev (dropWhile isStrWhiteSpaceChar s)))"

text \<open>
  A literal that the grammar \<open>StringNumericLiteral\<close> accepts: \<open>Infinity\<close> with its sign,
  or a sign with a mantissa \<open>m\<close> and a decimal exponent \<open>e\<close>, of value \<open>m * 10 ^ e\<close>
  (a literal in base 2, 8 or 16 has the exponent 0 and no sign).
\<close>

datatype literal = LitInfinity bool | LitValue bool nat int

definition splitSign :: "jsstring \<Rightarrow> bool \<times> jsstring" where
  "splitSign s =
     (case s of
        [] \<Rightarrow> (False, [])
      | c # r \<Rightarrow> if c = CH_MINUS then (True, r) else if c = 0x2B then (False, r) else (False, s))"

text \<open>\<open>ExponentPart\<close>, when present: \<open>e\<close> or \<open>E\<close>, an optional sign, and at least one digit.\<close>

definition parseExponentPart :: "jsstring \<Rightarrow> int option" where
  "parseExponentPart s =
     (case s of
        [] \<Rightarrow> Some 0
      | c # r \<Rightarrow>
          if c = 0x65 \<or> c = 0x45 then
            (let (neg, ds) = splitSign r
             in if ds = [] then None
                else if list_all isDigit ds
                  then Some (if neg then - int (digitsVal ds) else int (digitsVal ds))
                else None)
          else None)"

text \<open>
  \<open>StrUnsignedDecimalLiteral\<close> without \<open>Infinity\<close>: digits, then optionally a point and
  digits, then optionally an exponent part; a digit before or after the point.
\<close>

definition parseUnsignedDecimal :: "jsstring \<Rightarrow> (nat \<times> int) option" where
  "parseUnsignedDecimal s =
     (let ip = takeWhile isDigit s;
          r1 = dropWhile isDigit s;
          (fp, r2) = (case r1 of
                        [] \<Rightarrow> ([], [])
                      | c # r \<Rightarrow> if c = CH_DOT then (takeWhile isDigit r, dropWhile isDigit r)
                                 else ([], r1))
      in if ip = [] \<and> fp = [] then None
         else (case parseExponentPart r2 of
                 None \<Rightarrow> None
               | Some e \<Rightarrow> Some (digitsVal (ip @ fp), e - int (length fp))))"

definition STR_Infinity :: jsstring where
  "STR_Infinity = [0x49, 0x6E, 0x66, 0x69, 0x6E, 0x69, 0x74, 0x79]"

definition parseDecimalLiteral :: "jsstring \<Rightarrow> literal option" where
  "parseDecimalLiteral s =
     (let (neg, body) = splitSign s
      in case parseUnsignedDecimal body of
           Some (m, e) \<Rightarrow> Some (LitValue neg m e)
         | None \<Rightarrow> if body = STR_Infinity then Some (LitInfinity neg) else None)"

text \<open>\<open>NonDecimalIntegerLiteral\<close>: \<open>0b\<close>, \<open>0o\<close> or \<open>0x\<close> (either case) and digits of that base.\<close>

definition hexDigitVal :: "jschar \<Rightarrow> nat option" where
  "hexDigitVal c =
     (if 0x30 \<le> c \<and> c \<le> 0x39 then Some (unat (c - 0x30))
      else if 0x61 \<le> c \<and> c \<le> 0x66 then Some (unat (c - 0x61) + 10)
      else if 0x41 \<le> c \<and> c \<le> 0x46 then Some (unat (c - 0x41) + 10)
      else None)"

fun digitsInBase :: "nat \<Rightarrow> nat \<Rightarrow> jsstring \<Rightarrow> nat option" where
  "digitsInBase b acc [] = Some acc"
| "digitsInBase b acc (c # cs) =
     (case hexDigitVal c of
        None \<Rightarrow> None
      | Some d \<Rightarrow> if d < b then digitsInBase b (b * acc + d) cs else None)"

definition parseNonDecimalLiteral :: "jsstring \<Rightarrow> literal option" where
  "parseNonDecimalLiteral s =
     (case s of
        z # p # d # ds \<Rightarrow>
          if z = 0x30 then
            (let base = (if p = 0x62 \<or> p = 0x42 then 2
                         else if p = 0x6F \<or> p = 0x4F then 8
                         else if p = 0x78 \<or> p = 0x58 then 16 else (0::nat))
             in if base = 0 then None
                else map_option (\<lambda>m. LitValue False m 0) (digitsInBase base 0 (d # ds)))
          else None
      | _ \<Rightarrow> None)"

subsection \<open>Rounding to a double\<close>

fun bitLength :: "nat \<Rightarrow> nat" where
  "bitLength n = (if n = 0 then 0 else Suc (bitLength (n div 2)))"

declare bitLength.simps [simp del]

definition pow_int :: "rat \<Rightarrow> int \<Rightarrow> rat" where
  "pow_int b e = (if 0 \<le> e then b ^ nat e else 1 / b ^ nat (- e))"

definition roundHalfEven :: "rat \<Rightarrow> int" where
  "roundHalfEven x =
     (let f = \<lfloor>x\<rfloor>; d = x - of_int f
      in if d < 1 / 2 then f else if 1 / 2 < d then f + 1 else if even f then f else f + 1)"

text \<open>
  The double nearest to \<open>a / b\<close> for positive \<open>a\<close> and \<open>b\<close>, ties to even: 53 bits of
  mantissa, the least exponent \<open>-1074\<close>; \<open>None\<close> when the result is beyond the greatest
  double.
\<close>

definition roundToDouble :: "nat \<Rightarrow> nat \<Rightarrow> rat option" where
  "roundToDouble a b =
     (let q = rat_of_nat a / rat_of_nat b;
          k = int (bitLength a) - int (bitLength b);
          fl = (if pow_int 2 k \<le> q then k else k - 1);
          e = max (fl - 52) (- 1074);
          r = rat_of_int (roundHalfEven (q / pow_int 2 e)) * pow_int 2 e
      in if 2 ^ 1024 \<le> r then None else Some r)"

text \<open>The double nearest to \<open>m * 10 ^ e\<close>, for positive \<open>m\<close>.\<close>

definition decimalToDouble :: "nat \<Rightarrow> int \<Rightarrow> rat option" where
  "decimalToDouble m e =
     (if 0 \<le> e then roundToDouble (m * 10 ^ nat e) 1 else roundToDouble m (10 ^ nat (- e)))"

definition literalValue :: "literal \<Rightarrow> jsnum" where
  "literalValue l =
     (case l of
        LitInfinity neg \<Rightarrow> if neg then NegInf else PosInf
      | LitValue neg m e \<Rightarrow>
          if m = 0 then (if neg then NegZero else Fin 0)
          else
            (case decimalToDouble m e of
               None \<Rightarrow> if neg then NegInf else PosInf
             | Some r \<Rightarrow> if r = 0 then (if neg then NegZero else Fin 0)
                         else Fin (if neg then - r else r)))"

definition Number_js :: "jsstring \<Rightarrow> jsnum" where
  "Number_js s =
     (let t = trimString s
      in if t = [] then Fin 0
         else (case parseDecimalLiteral t of
                 Some l \<Rightarrow> literalValue l
               | None \<Rightarrow> (case parseNonDecimalLiteral t of
                            Some l \<Rightarrow> literalValue l
                          | None \<Rightarrow> NaN)))"

definition isNaN :: "jsnum \<Rightarrow> bool" where
  "isNaN x = (case x of NaN \<Rightarrow> True | _ \<Rightarrow> False)"

subsection \<open>Comparison of numbers, \<open>split\<close>\<close>

definition numRank :: "jsnum \<Rightarrow> int" where
  "numRank x = (case x of NegInf \<Rightarrow> - 1 | PosInf \<Rightarrow> 1 | _ \<Rightarrow> 0)"

definition numMag :: "jsnum \<Rightarrow> rat" where
  "numMag x = (case x of Fin q \<Rightarrow> q | _ \<Rightarrow> 0)"

text \<open>\<open>a < b\<close> on numbers: false when either is \<open>NaN\<close>; the two zeros are equal.\<close>

definition js_lt :: "jsnum \<Rightarrow> jsnum \<Rightarrow> bool" where
  "js_lt a b =
     (if isNaN a \<or> isNaN b then False
      else if numRank a = numRank b then numMag a < numMag b
      else numRank a < numRank b)"

definition js_gt :: "jsnum \<Rightarrow> jsnum \<Rightarrow> bool" where
  "js_gt a b = js_lt b a"

text \<open>\<open>s.split(sep)\<close> for a separator of one code unit; the result is never empty.\<close>

fun split_js :: "jschar \<Rightarrow> jsstring \<Rightarrow> jsstring list" where
  "split_js sep [] = [[]]"
| "split_js sep (c # cs) =
     (if c = sep then [] # split_js sep cs
      else (case split_js sep cs of
              [] \<Rightarrow> [[c]]
            | p # ps \<Rightarrow> (c # p) # ps))"

subsection \<open>Decimal digits of a number\<close>

fun natToDigits :: "nat \<Rightarrow> jsstring" where
  "natToDigits n =
     (if n < 10 then [0x30 + of_nat n]
      else natToDigits (n div 10) @ [0x30 + of_nat (n mod 10)])"

declare natToDigits.simps [simp del]

text \<open>
  The integer \<open>n\<close> for which \<open>n / 10 ^ f\<close> is nearest to \<open>x \<ge> 0\<close>, the larger one of two,
  written with at least \<open>f + 1\<close> digits, and cut into the digits before the point and the
  \<open>f\<close> digits after it.
\<close>

definition fixedDigits :: "rat \<Rightarrow> nat \<Rightarrow> jsstring \<times> jsstring" where
  "fixedDigits x f =
     (let n = nat \<lfloor>x * 10 ^ f + 1 / 2\<rfloor>;
          m = natToDigits n;
          m = replicate (f + 1 - length m) 0x30 @ m;
          k = length m
      in (take (k - f) m, drop (k - f) m))"

subsection \<open>\<open>String(number)\<close>\<close>

text \<open>The \<open>n\<close> with \<open>10 ^ (n - 1) \<le> x < 10 ^ n\<close>, for positive \<open>x\<close>.\<close>

definition decimalExponent :: "rat \<Rightarrow> int" where
  "decimalExponent x =
     (let (a, b) = quotient_of x;
          d = int (length (natToDigits (nat a))) - int (length (natToDigits (nat b)))
      in if x < pow_int 10 d then d else d + 1)"

text \<open>
  \<open>Number::toString\<close> looks for the fewest digits \<open>k\<close> and a \<open>k\<close>-digit integer \<open>s\<close> such
  that \<open>s * 10 ^ (n - k)\<close> rounds to \<open>x\<close>, and takes the nearest such \<open>s\<close>. The search
  tries \<open>k = 1, 2, ...\<close>; 17 digits identify every double. The result is \<open>(s, k, n)\<close>.
\<close>

fun shortestDigits :: "rat \<Rightarrow> int \<Rightarrow> nat \<Rightarrow> nat \<Rightarrow> nat \<times> nat \<times> int" where
  "shortestDigits x n0 k 0 = (nat \<lfloor>x / pow_int 10 (n0 - int k) + 1 / 2\<rfloor>, k, n0)"
| "shortestDigits x n0 k (Suc fuel) =
     (let e = n0 - int k;
          lo = nat \<lfloor>x / pow_int 10 e\<rfloor>;
          hi = lo + 1;
          okLo = (decimalToDouble lo e = Some x);
          okHi = (decimalToDouble hi e = Some x);
          useLo = (if okLo then
                     (if okHi then x - of_nat lo * pow_int 10 e \<le> of_nat hi * pow_int 10 e - x
                      else True)
                   else False)
      in if useLo then (lo, k, n0)
         else if okHi then (if hi = 10 ^ k then (10 ^ (k - 1), k, n0 + 1) else (hi, k, n0))
         else shortestDigits x n0 (Suc k) fuel)"

definition STR_NaN :: jsstring where
  "STR_NaN = [0x4E, 0x61, 0x4E]"

definition positiveToString :: "rat \<Rightarrow> jsstring" where
  "positiveToString x =
     (let (s, k, n) = shortestDigits x (decimalExponent x) 1 16;
          ds = natToDigits s
      in if - 5 \<le> n \<and> n \<le> 21 then
           (if int k \<le> n then ds @ replicate (nat (n - int k)) 0x30
            else if 0 < n then take (nat n) ds @ CH_DOT # drop (nat n) ds
            else [0x30, CH_DOT] @ replicate (nat (- n)) 0x30 @ ds)
         else
           (let c = n - 1;
                ex = 0x65 # (if 0 \<le> c then 0x2B else CH_MINUS) # natToDigits (nat \<bar>c\<bar>)
            in if k = 1 then ds @ ex else take 1 ds @ CH_DOT # drop 1 ds @ ex))"

definition ToString_js :: "jsnum \<Rightarrow> jsstring" where
  "ToString_js x =
     (case x of
        NaN \<Rightarrow> STR_NaN
      | PosInf \<Rightarrow> STR_Infinity
      | NegInf \<Rightarrow> CH_MINUS # STR_Infinity
      | NegZero \<Rightarrow> [0x30]
      | Fin q \<Rightarrow> if q = 0 then [0x30]
                 else if q < 0 then CH_MINUS # positiveToString (- q)
                 else positiveToString q)"

subsection \<open>\<open>Number.prototype.toFixed\<close>\<close>

text \<open>\<open>ToIntegerOrInfinity\<close>; \<open>None\<close> is an infinity.\<close>

definition ToIntegerOrInfinity :: "jsnum \<Rightarrow> int option" where
  "ToIntegerOrInfinity x =
     (case x of
        NaN \<Rightarrow> Some 0
      | NegZero \<Rightarrow> Some 0
      | PosInf \<Rightarrow> None
      | NegInf \<Rightarrow> None
      | Fin q \<Rightarrow> Some (if 0 \<le> q then \<lfloor>q\<rfloor> else - \<lfloor>- q\<rfloor>))"

definition fixedNotation :: "rat \<Rightarrow> nat \<Rightarrow> jsstring" where
  "fixedNotation x f =
     (if 10 ^ 21 \<le> x then ToString_js (Fin x)
      else (let (a, b) = fixedDigits x f in if f = 0 then a else a @ CH_DOT # b))"

text \<open>
  \<open>x.toFixed(fractionDigits)\<close>. A number of digits outside 0..100 is a RangeError;
  a number that is not finite, or is at least \<open>10 ^ 21\<close>, is converted as \<open>String\<close> does.
\<close>

definition toFixed :: "jsnum \<Rightarrow> jsnum \<Rightarrow> jserror + jsstring" where
  "toFixed x fractionDigits =
     (case ToIntegerOrInfinity fractionDigits of
        None \<Rightarrow> Inl RangeError
      | Some f \<Rightarrow>
          if f < 0 \<or> 100 < f then Inl RangeError
          else Inr (case x of
                      Fin q \<Rightarrow> if q < 0 then CH_MINUS # fixedNotation (- q) (nat f)
                               else fixedNotation q (nat f)
                    | NegZero \<Rightarrow> fixedNotation 0 (nat f)
                    | _ \<Rightarrow> ToString_js x))"

subsection \<open>\<open>toLocaleString('en-US', options)\<close>\<close>

text \<open>
  Every call of the component gives \<open>minimumFractionDigits\<close> and \<open>maximumFractionDigits\<close>
  the same value (or gives only a maximum of 0, and the minimum defaults to 0), so the
  model takes that one value. It is read as \<open>DefaultNumberOption\<close> reads it: \<open>NaN\<close> or a
  value outside 0..100 is a RangeError, any other value is rounded down.
\<close>

definition fractionDigitsOption :: "jsnum \<Rightarrow> jserror + nat" where
  "fractionDigitsOption v =
     (case v of
        NaN \<Rightarrow> Inl RangeError
      | PosInf \<Rightarrow> Inl RangeError
      | NegInf \<Rightarrow> Inl RangeError
      | NegZero \<Rightarrow> Inr 0
      | Fin q \<Rightarrow> if q < 0 \<or> 100 < q then Inl RangeError else Inr (nat \<lfloor>q\<rfloor>))"

text \<open>Grouping of the integer digits by three, from the right.\<close>

fun groupRev :: "jsstring \<Rightarrow> jsstring" where
  "groupRev (a # b # c # d # r) = a # b # c # CH_COMMA # groupRev (d # r)"
| "groupRev r = r"

definition groupDigits :: "jsstring \<Rightarrow> jsstring" where
  "groupDigits ds = rev (groupRev (rev ds))"

definition localeNotation :: "rat \<Rightarrow> nat \<Rightarrow> jsstring" where
  "localeNotation x f =
     (let (a, b) = fixedDigits x f
      in if f = 0 then groupDigits a else groupDigits a @ CH_DOT # b)"

abbreviation CH_INFINITY :: jschar where "CH_INFINITY \<equiv> 0x221E"

definition toLocaleString_enUS :: "jsnum \<Rightarrow> jsnum \<Rightarrow> jserror + jsstring" where
  "toLocaleString_enUS x fractionDigits =
     (case fractionDigitsOption fractionDigits of
        Inl e \<Rightarrow> Inl e
      | Inr f \<Rightarrow>
          Inr (case x of
                 NaN \<Rightarrow> STR_NaN
               | PosInf \<Rightarrow> [CH_INFINITY]
               | NegInf \<Rightarrow> [CH_MINUS, CH_INFINITY]
               | NegZero \<Rightarrow> CH_MINUS # localeNotation 0 f
               | Fin q \<Rightarrow> if q < 0 then CH_MINUS # localeNotation (- q) f
                          else localeNotation q f))"

section \<open>The normalizer\<close>

datatype raw_input = Absent | Text jsstring | Numeric jsnum

definition isFullWidthDigit :: "jschar \<Rightarrow> bool" where
  "isFullWidthDigit c = (0xFF10 \<le> c \<and> c \<le> 0xFF19)"

definition digitToHalfWidth :: "jschar \<Rightarrow> jschar" where
  "digitToHalfWidth c = (if isFullWidthDigit c then c - 0xFEE0 else c)"

definition replaceChar :: "jschar \<Rightarrow> jschar \<Rightarrow> jschar \<Rightarrow> jschar" where
  "replaceChar a b c = (if c = a then b else c)"

text \<open>
  The four \<open>replace\<close> calls, each with a global pattern of one code unit: the digits
  U+FF10..U+FF19, the full stop U+FF0E, the prolonged sound mark U+30FC, and the comma
  U+002C, which is deleted.
\<close>

definition replaceSteps :: "jsstring \<Rightarrow> jsstring" where
  "replaceSteps str0 =
     (let str = map digitToHalfWidth str0;
          str = map (replaceChar CH_FW_DOT CH_DOT) str;
          str = map (replaceChar CH_PROLONGED CH_MINUS) str;
          str = filter (\<lambda>c. c \<noteq> CH_COMMA) str
      in str)"

definition normalizeAndRemoveCommas :: "raw_input \<Rightarrow> jsstring" where
  "normalizeAndRemoveCommas input =
     (case input of
        Absent \<Rightarrow> []
      | Text s \<Rightarrow> replaceSteps s
      | Numeric n \<Rightarrow> replaceSteps (ToString_js n))"

section \<open>The formatter\<close>

definition isInProgressToken :: "jsstring \<Rightarrow> bool" where
  "isInProgressToken s =
     (s = [] \<or> s = [CH_MINUS] \<or> s = [CH_DOT] \<or> s = [CH_MINUS, CH_DOT])"

definition formatNumberWithCommas ::
    "jsstring \<Rightarrow> bool \<Rightarrow> jsnum option \<Rightarrow> jserror + jsstring" where
  "formatNumberWithCommas valStr allowDecimal decimalPlaces =
     (if isInProgressToken valStr then Inr valStr
      else
        (let num = Number_js valStr in
         if isNaN num then
           (case split_js CH_DOT valStr of
              [] \<Rightarrow> Inr valStr
            | integerPart # rest \<Rightarrow>
                (let potentialDecimalPart = (case rest of [] \<Rightarrow> None | d # _ \<Rightarrow> Some d);
                     intNumCheck = Number_js integerPart
                 in if integerPart = [] then Inr valStr
                    else if isNaN intNumCheck then Inr valStr
                    else
                      (case toLocaleString_enUS (Number_js integerPart) (Fin 0) of
                         Inl e \<Rightarrow> Inl e
                       | Inr formattedInt \<Rightarrow>
                           (case potentialDecimalPart of
                              Some d \<Rightarrow> if allowDecimal then Inr (formattedInt @ CH_DOT # d)
                                        else Inr formattedInt
                            | None \<Rightarrow> Inr formattedInt))))
         else
           (let fractionDigits =
                  (if allowDecimal then
                     (case decimalPlaces of
                        Some d \<Rightarrow> d
                      | None \<Rightarrow>
                          (case split_js CH_DOT valStr of
                             _ # decimalPartStr # _ \<Rightarrow>
                               if decimalPartStr = [] then Fin 0
                               else Fin (of_nat (length decimalPartStr))
                           | _ \<Rightarrow> Fin 0))
                   else Fin 0)
            in toLocaleString_enUS num fractionDigits)))"

section \<open>The validator\<close>

text \<open>
  The properties of the component, and the callbacks it may have been given
  (\<open>True\<close> when the callback is supplied).
\<close>

record props =
  required :: bool
  allowDecimal :: bool
  decimalPlaces :: "jsnum option"
  min_prop :: "jsnum option"
  max_prop :: "jsnum option"
  onValueChange :: bool
  muiOnChange :: bool
  muiOnBlur :: bool

text \<open>
  The test of \<open>^-?\d*(\.\d*)?$\<close>, or of \<open>^-?\d*$\<close> when decimals are not allowed. A minus
  sign can only be matched by \<open>-?\<close>, and the digits after it only by the first \<open>\d*\<close>, so
  the match is decided from left to right.
\<close>

definition dropMinus :: "jsstring \<Rightarrow> jsstring" where
  "dropMinus s = (case s of [] \<Rightarrow> [] | c # r \<Rightarrow> if c = CH_MINUS then r else s)"

definition matchesNumericFormat :: "bool \<Rightarrow> jsstring \<Rightarrow> bool" where
  "matchesNumericFormat withDecimal s =
     (case dropWhile isDigit (dropMinus s) of
        [] \<Rightarrow> True
      | c # r \<Rightarrow> withDecimal \<and> c = CH_DOT \<and> list_all isDigit r)"

text \<open>
  The helper texts, as their UTF-16 code units. In order they read: the input is
  required; only valid half-width digits, a decimal point and a minus sign are allowed;
  only valid half-width integers and a minus sign are allowed; enter valid half-width
  digits; "after the decimal point, up to" and "digits", around the number of places;
  "enter a value of at least" and "enter a value of at most", after the bound.
\<close>

definition MSG_REQUIRED :: jsstring where
  "MSG_REQUIRED = [0x5165, 0x529B, 0x306F, 0x5FC5, 0x9808, 0x3067, 0x3059, 0x3002]"

definition MSG_FORMAT_DECIMAL :: jsstring where
  "MSG_FORMAT_DECIMAL =
     [0x6709, 0x52B9, 0x306A, 0x534A, 0x89D2, 0x6570, 0x5B57, 0x3001, 0x5C0F, 0x6570,
      0x70B9, 0x3001, 0x30DE, 0x30A4, 0x30CA, 0x30B9, 0x8A18, 0x53F7, 0x306E, 0x307F,
      0x304C, 0x8A31, 0x5BB9, 0x3055, 0x308C, 0x307E, 0x3059, 0x3002]"

definition MSG_FORMAT_INTEGER :: jsstring where
  "MSG_FORMAT_INTEGER =
     [0x6709, 0x52B9, 0x306A, 0x534A, 0x89D2, 0x6574, 0x6570, 0x3001, 0x30DE, 0x30A4,
      0x30CA, 0x30B9, 0x8A18, 0x53F7, 0x306E, 0x307F, 0x304C, 0x8A31, 0x5BB9, 0x3055,
      0x308C, 0x307E, 0x3059, 0x3002]"

definition MSG_NOT_A_NUMBER :: jsstring where
  "MSG_NOT_A_NUMBER =
     [0x6709, 0x52B9, 0x306A, 0x534A, 0x89D2, 0x6570, 0x5B57, 0x3092, 0x5165, 0x529B,
      0x3057, 0x3066, 0x304F, 0x3060, 0x3055, 0x3044, 0x3002]"

definition MSG_DECIMALS_PREFIX :: jsstring where
  "MSG_DECIMALS_PREFIX = [0x5C0F, 0x6570, 0x70B9, 0x4EE5, 0x4E0B, 0x306F]"

definition MSG_DECIMALS_SUFFIX :: jsstring where
  "MSG_DECIMALS_SUFFIX = [0x6841, 0x307E, 0x3067, 0x3067, 0x3059, 0x3002]"

definition MSG_MIN_SUFFIX :: jsstring where
  "MSG_MIN_SUFFIX =
     [0x4EE5, 0x4E0A, 0x306E, 0x5024, 0x3092, 0x5165, 0x529B, 0x3057, 0x3066, 0x304F,
      0x3060, 0x3055, 0x3044, 0x3002]"

definition MSG_MAX_SUFFIX :: jsstring where
  "MSG_MAX_SUFFIX =
     [0x4EE5, 0x4E0B, 0x306E, 0x5024, 0x3092, 0x5165, 0x529B, 0x3057, 0x3066, 0x304F,
      0x3060, 0x3055, 0x3044, 0x3002]"

text \<open>The check of the decimal places: \<open>parts.length > 1 && parts[1].length > decimalPlaces\<close>.\<close>

definition tooManyDecimals :: "jsstring \<Rightarrow> jsnum \<Rightarrow> bool" where
  "tooManyDecimals currentValue places =
     (case split_js CH_DOT currentValue of
        _ # part1 # _ \<Rightarrow> js_gt (Fin (of_nat (length part1))) places
      | _ \<Rightarrow> False)"

text \<open>
  The range check, entered only while there is no error: each bound that is violated
  sets the error and its message, the maximum after the minimum.
\<close>

definition rangeCheck :: "props \<Rightarrow> jsnum \<Rightarrow> bool \<times> jsstring" where
  "rangeCheck p numValue =
     (let r0 = (False, []);
          r1 = (case min_prop p of
                  Some m \<Rightarrow> if js_lt numValue m then (True, ToString_js m @ MSG_MIN_SUFFIX) else r0
                | None \<Rightarrow> r0);
          r2 = (case max_prop p of
                  Some m \<Rightarrow> if js_gt numValue m then (True, ToString_js m @ MSG_MAX_SUFFIX) else r1
                | None \<Rightarrow> r1)
      in r2)"

text \<open>The values of \<open>hasError\<close> and \<open>currentHelperText\<close> at the end of \<open>validateAndSetError\<close>.\<close>

definition validationVerdict :: "props \<Rightarrow> jsstring \<Rightarrow> bool \<times> jsstring" where
  "validationVerdict p currentValue =
     (if required p \<and> currentValue = [] then (True, MSG_REQUIRED)
      else if currentValue = [] then (False, [])
      else if \<not> matchesNumericFormat (allowDecimal p) currentValue then
        (True, if allowDecimal p then MSG_FORMAT_DECIMAL else MSG_FORMAT_INTEGER)
      else
        (let isInputInProgress =
               (currentValue = [CH_MINUS]
                \<or> (allowDecimal p
                    \<and> (currentValue = [CH_DOT] \<or> currentValue = [CH_MINUS, CH_DOT])))
         in if isInputInProgress then (False, [])
            else
              (let numValue = Number_js currentValue
               in if isNaN numValue then (True, MSG_NOT_A_NUMBER)
                  else
                    (case (if allowDecimal p then decimalPlaces p else None) of
                       Some places \<Rightarrow>
                         if tooManyDecimals currentValue places
                           then (True, MSG_DECIMALS_PREFIX @ ToString_js places @ MSG_DECIMALS_SUFFIX)
                         else rangeCheck p numValue
                     | None \<Rightarrow> rangeCheck p numValue))))"

section \<open>The controller\<close>

record state =
  internalValue :: jsstring
  error :: bool
  internalHelperText :: jsstring
  isComposing :: bool

datatype notification = ValueChange jsstring | Change jsstring | BlurEvent

definition validateAndSetError :: "props \<Rightarrow> jsstring \<Rightarrow> state \<Rightarrow> bool \<times> state" where
  "validateAndSetError p currentValue st =
     (let (hasError, currentHelperText) = validationVerdict p currentValue
      in (hasError, st\<lparr>error := hasError, internalHelperText := currentHelperText\<rparr>))"

definition initialState :: "raw_input \<Rightarrow> state" where
  "initialState controlledValue =
     \<lparr>internalValue = normalizeAndRemoveCommas controlledValue, error = False,
      internalHelperText = [], isComposing = False\<rparr>"

text \<open>The effect that follows a change of the \<open>value\<close> property.\<close>

definition controlledValueEffect :: "props \<Rightarrow> raw_input \<Rightarrow> state \<Rightarrow> state" where
  "controlledValueEffect p controlledValue st =
     (if isComposing st then st
      else
        (let normalized = normalizeAndRemoveCommas controlledValue
         in if normalized = internalValue st then st
            else snd (validateAndSetError p normalized (st\<lparr>internalValue := normalized\<rparr>))))"

definition blurNotification :: "props \<Rightarrow> notification list" where
  "blurNotification p = (if muiOnBlur p then [BlurEvent] else [])"

text \<open>
  The blur handler. A RangeError of \<open>toFixed\<close> leaves the handler; otherwise the result is
  the new state and the callbacks made, in order.
\<close>

definition handleInternalBlur :: "props \<Rightarrow> state \<Rightarrow> jserror + state \<times> notification list" where
  "handleInternalBlur p st =
     (if isComposing st then Inr (st, blurNotification p)
      else
        (let currentValue = internalValue st;
             (hasErrorFromValidation, st1) = validateAndSetError p currentValue st
         in case (if hasErrorFromValidation then None
                  else if allowDecimal p then decimalPlaces p else None) of
              None \<Rightarrow> Inr (st1, blurNotification p)
            | Some places \<Rightarrow>
                (let numValue = Number_js currentValue
                 in if isNaN numValue \<or> currentValue = [] \<or> currentValue = [CH_MINUS]
                       \<or> currentValue = [CH_DOT]
                    then Inr (st1, blurNotification p)
                    else
                      (case toFixed numValue places of
                         Inl e \<Rightarrow> Inl e
                       | Inr roundedValue \<Rightarrow>
                           if roundedValue = currentValue then Inr (st1, blurNotification p)
                           else
                             (let st2 = st1\<lparr>internalValue := roundedValue\<rparr>;
                                  st3 = snd (validateAndSetError p roundedValue st2)
                              in Inr (st3,
                                      (if onValueChange p then [ValueChange roundedValue] else [])
                                      @ blurNotification p))))))"

definition handleInternalChange :: "props \<Rightarrow> jsstring \<Rightarrow> state \<Rightarrow> state \<times> notification list" where
  "handleInternalChange p inputValue st =
     (if isComposing st then
        (st\<lparr>internalValue := inputValue\<rparr>, if muiOnChange p then [Change inputValue] else [])
      else
        (let normalizedValue = normalizeAndRemoveCommas (Text inputValue);
             st1 = st\<lparr>internalValue := normalizedValue\<rparr>;
             st2 = snd (validateAndSetError p normalizedValue st1)
         in (st2,
             (if onValueChange p then [ValueChange normalizedValue] else [])
             @ (if muiOnChange p then [Change normalizedValue] else []))))"

definition onCompositionStart :: "state \<Rightarrow> state" where
  "onCompositionStart st = st\<lparr>isComposing := True\<rparr>"

definition onCompositionEnd :: "props \<Rightarrow> jsstring \<Rightarrow> state \<Rightarrow> state \<times> notification list" where
  "onCompositionEnd p finalValue st =
     handleInternalChange p finalValue (st\<lparr>isComposing := False\<rparr>)"

definition displayValue :: "props \<Rightarrow> state \<Rightarrow> jserror + jsstring" where
  "displayValue p st =
     (if isComposing st \<or> error st then Inr (internalValue st)
      else formatNumberWithCommas (internalValue st) (allowDecimal p) (decimalPlaces p))"

section \<open>Notions used in the statements and proofs\<close>

text \<open>What the three character replacements of the normalizer do to one code unit.\<close>

definition normChar :: "jschar \<Rightarrow> jschar" where
  "normChar c =
     replaceChar CH_PROLONGED CH_MINUS (replaceChar CH_FW_DOT CH_DOT (digitToHalfWidth c))"

text \<open>The part of a text after its first point; empty when there is no point.\<close>

definition afterPoint :: "jsstring \<Rightarrow> jsstring" where
  "afterPoint s = (case dropWhile (\<lambda>c. c \<noteq> CH_DOT) s of [] \<Rightarrow> [] | _ # r \<Rightarrow> r)"

text \<open>The second of the parts that \<open>split('.')\<close> gives; empty when there is one part only.\<close>

definition secondPart :: "jsstring \<Rightarrow> jsstring" where
  "secondPart s = (case split_js CH_DOT s of _ # d # _ \<Rightarrow> d | _ \<Rightarrow> [])"

definition isFiniteNum :: "jsnum \<Rightarrow> bool" where
  "isFiniteNum x = (case x of Fin _ \<Rightarrow> True | NegZero \<Rightarrow> True | _ \<Rightarrow> False)"

text \<open>A number of decimal places that is absent, or lies between 0 and 100.\<close>

definition placesInRange :: "jsnum option \<Rightarrow> bool" where
  "placesInRange d =
     (case d of
        None \<Rightarrow> True
      | Some (Fin q) \<Rightarrow> 0 \<le> q \<and> q \<le> 100
      | Some NegZero \<Rightarrow> True
      | Some _ \<Rightarrow> False)"

section \<open>Evaluation lemmas\<close>

lemmas number_defs = Number_js_def trimString_def isStrWhiteSpaceChar_def parseDecimalLiteral_def
  splitSign_def parseUnsignedDecimal_def isDigit_def parseExponentPart_def digitsVal_def
  digitVal_def literalValue_def decimalToDouble_def roundToDouble_def bitLength.simps pow_int_def
  roundHalfEven_def Let_def

lemmas normalize_defs = normalizeAndRemoveCommas_def replaceSteps_def replaceChar_def
  digitToHalfWidth_def isFullWidthDigit_def

lemma floor_rat_numeral_divide:
  "\<lfloor>(numeral a / numeral b :: rat)\<rfloor> = numeral a div numeral b"
  using floor_divide_of_int_eq [of "numeral a" "numeral b", where ?'a = rat] by simp

lemma Number_1_5: "Number_js [0x31, CH_DOT, 0x35] = Fin (3 / 2)"
  by (simp add: number_defs)

lemma Number_1_50: "Number_js [0x31, CH_DOT, 0x35, 0x30] = Fin (3 / 2)"
  by (simp add: number_defs)

lemma Number_5: "Number_js [0x35] = Fin 5"
  by (simp add: number_defs)

lemma natToDigits_150: "natToDigits 150 = [0x31, 0x35, 0x30]"
  by (simp add: natToDigits.simps)

lemma fixedDigits_1_5: "fixedDigits (3 / 2) 2 = ([0x31], [0x35, 0x30])"
  by (simp add: fixedDigits_def natToDigits_150 Let_def floor_rat_numeral_divide)

lemma toFixed_1_5: "toFixed (Fin (3 / 2)) (Fin 2) = Inr [0x31, CH_DOT, 0x35, 0x30]"
  by (simp add: toFixed_def ToIntegerOrInfinity_def fixedNotation_def fixedDigits_1_5)

lemma toLocaleString_1_5:
  "toLocaleString_enUS (Fin (3 / 2)) (Fin 2) = Inr [0x31, CH_DOT, 0x35, 0x30]"
  by (simp add: toLocaleString_enUS_def fractionDigitsOption_def localeNotation_def
      fixedDigits_1_5 groupDigits_def)

lemma verdict_1_5:
  "allowDecimal p \<Longrightarrow> decimalPlaces p = Some (Fin 2) \<Longrightarrow> min_prop p = None
   \<Longrightarrow> max_prop p = None \<Longrightarrow> validationVerdict p [0x31, CH_DOT, 0x35] = (False, [])"
  by (simp add: validationVerdict_def matchesNumericFormat_def dropMinus_def isDigit_def
      Number_1_5 isNaN_def tooManyDecimals_def js_gt_def js_lt_def numRank_def numMag_def
      rangeCheck_def)

lemma verdict_1_50:
  "allowDecimal p \<Longrightarrow> decimalPlaces p = Some (Fin 2) \<Longrightarrow> min_prop p = None
   \<Longrightarrow> max_prop p = None \<Longrightarrow> validationVerdict p [0x31, CH_DOT, 0x35, 0x30] = (False, [])"
  by (simp add: validationVerdict_def matchesNumericFormat_def dropMinus_def isDigit_def
      Number_1_50 isNaN_def tooManyDecimals_def js_gt_def js_lt_def numRank_def numMag_def
      rangeCheck_def)

lemma normalize_1_5:
  "normalizeAndRemoveCommas (Text [0x31, CH_DOT, 0x35]) = [0x31, CH_DOT, 0x35]"
  by (simp add: normalize_defs)

section \<open>The normalizer: idempotence and what it replaces\<close>

lemma replaceSteps_alt: "replaceSteps s = filter (\<lambda>c. c \<noteq> CH_COMMA) (map normChar s)"
proof -
  have "normChar
          = replaceChar CH_PROLONGED CH_MINUS \<circ> replaceChar CH_FW_DOT CH_DOT \<circ> digitToHalfWidth"
    by (rule ext) (simp add: normChar_def)
  then show ?thesis
    by (simp add: replaceSteps_def Let_def)
qed

lemma replaceSteps_Nil: "replaceSteps [] = []"
  by (simp add: replaceSteps_def)

lemma normChar_comma: "normChar c = CH_COMMA \<longleftrightarrow> c = CH_COMMA"
  unfolding normChar_def replaceChar_def digitToHalfWidth_def isFullWidthDigit_def
  by (auto; unat_arith)

lemma normChar_idem: "normChar (normChar c) = normChar c"
  unfolding normChar_def replaceChar_def digitToHalfWidth_def isFullWidthDigit_def
  by (auto; unat_arith)

lemma normChar_not_fullwidth: "\<not> isFullWidthDigit (normChar c)"
  unfolding normChar_def replaceChar_def digitToHalfWidth_def isFullWidthDigit_def
  by (auto; unat_arith)

lemma replaceSteps_idem: "replaceSteps (replaceSteps s) = replaceSteps s"
  by (induction s) (simp_all add: replaceSteps_alt normChar_comma normChar_idem)

lemma replaceSteps_no_fullwidth_digit_or_comma:
  "filter (\<lambda>c. isFullWidthDigit c \<or> c = CH_COMMA) (replaceSteps s) = []"
  by (induction s) (simp_all add: replaceSteps_alt normChar_not_fullwidth)

text \<open>
  Claim C1. The normalizer is idempotent: for every input, absent, a string or a number,
  normalizing the normalized text again returns it unchanged.
\<close>

theorem normalize_idempotent:
  "normalizeAndRemoveCommas (Text (normalizeAndRemoveCommas x)) = normalizeAndRemoveCommas x"
  by (cases x) (simp_all add: normalizeAndRemoveCommas_def replaceSteps_idem replaceSteps_Nil)

theorem normalize_idempotent_witness:
  "normalizeAndRemoveCommas
     (Text (normalizeAndRemoveCommas (Text [0xFF11, CH_COMMA, CH_FW_DOT, 0xFF15, CH_PROLONGED])))
     = [0x31, CH_DOT, 0x35, CH_MINUS]"
  by (subst normalize_idempotent) (simp add: normalize_defs)

lemma normalize_fullwidth_digit:
  "isFullWidthDigit c \<Longrightarrow> normalizeAndRemoveCommas (Text [c]) = [c - 0xFEE0]"
  unfolding normalizeAndRemoveCommas_def replaceSteps_def replaceChar_def digitToHalfWidth_def
    isFullWidthDigit_def
  by (auto; unat_arith)

lemma halfwidth_digit: "isFullWidthDigit c \<Longrightarrow> isDigit (c - 0xFEE0)"
  unfolding isFullWidthDigit_def isDigit_def
  by unat_arith

text \<open>
  Claim C2, as the code has it. Every full-width digit becomes the half-width digit at
  the offset 0xFEE0 and the comma U+002C is deleted, so the full-width 123 gives 123 and
  the full-width 123,456 written with U+002C gives 123456; no full-width digit and no
  comma U+002C is left in any result. The full-width comma U+FF0C is not a character the
  normalizer replaces: it stays where it is.
\<close>

theorem normalize_strips_ascii_comma_only:
  "(isFullWidthDigit c \<longrightarrow>
      normalizeAndRemoveCommas (Text [c]) = [c - 0xFEE0] \<and> isDigit (c - 0xFEE0))
   \<and> normalizeAndRemoveCommas (Text [0xFF11, 0xFF12, 0xFF13]) = [0x31, 0x32, 0x33]
   \<and> normalizeAndRemoveCommas (Text [0xFF11, 0xFF12, 0xFF13, CH_COMMA, 0xFF14, 0xFF15, 0xFF16])
       = [0x31, 0x32, 0x33, 0x34, 0x35, 0x36]
   \<and> normalizeAndRemoveCommas (Text [0xFF11, 0xFF12, 0xFF13, CH_FW_COMMA, 0xFF14, 0xFF15, 0xFF16])
       = [0x31, 0x32, 0x33, CH_FW_COMMA, 0x34, 0x35, 0x36]
   \<and> filter (\<lambda>c. isFullWidthDigit c \<or> c = CH_COMMA) (normalizeAndRemoveCommas x) = []"
proof -
  have "filter (\<lambda>c. isFullWidthDigit c \<or> c = CH_COMMA) (normalizeAndRemoveCommas x) = []"
    by (cases x)
       (simp_all add: normalizeAndRemoveCommas_def replaceSteps_no_fullwidth_digit_or_comma)
  moreover have "normalizeAndRemoveCommas (Text [0xFF11, 0xFF12, 0xFF13]) = [0x31, 0x32, 0x33]"
    by (simp add: normalize_defs)
  moreover have
    "normalizeAndRemoveCommas (Text [0xFF11, 0xFF12, 0xFF13, CH_COMMA, 0xFF14, 0xFF15, 0xFF16])
       = [0x31, 0x32, 0x33, 0x34, 0x35, 0x36]"
    by (simp add: normalize_defs)
  moreover have
    "normalizeAndRemoveCommas (Text [0xFF11, 0xFF12, 0xFF13, CH_FW_COMMA, 0xFF14, 0xFF15, 0xFF16])
       = [0x31, 0x32, 0x33, CH_FW_COMMA, 0x34, 0x35, 0x36]"
    by (simp add: normalize_defs)
  ultimately show ?thesis
    using normalize_fullwidth_digit [of c] halfwidth_digit [of c] by blast
qed

theorem normalize_strips_ascii_comma_only_witness:
  "isFullWidthDigit 0xFF19
   \<and> normalizeAndRemoveCommas (Text [0xFF19]) = [0x39]
   \<and> isDigit 0x39
   \<and> filter (\<lambda>c. isFullWidthDigit c \<or> c = CH_COMMA)
        (normalizeAndRemoveCommas (Text [0xFF19, CH_COMMA, CH_FW_COMMA, 0x39])) = []
   \<and> normalizeAndRemoveCommas (Text [0xFF19, CH_COMMA, CH_FW_COMMA, 0x39])
       = [0x39, CH_FW_COMMA, 0x39]"
  using normalize_strips_ascii_comma_only
    [of "0xFF19" "Text [0xFF19, CH_COMMA, CH_FW_COMMA, 0x39]"]
  by (simp add: normalize_defs isDigit_def)

text \<open>
  Claim C2 as stated fails: the full-width 123,456 written with the full-width comma
  U+FF0C does not normalize to 123456.
\<close>

theorem normalize_fullwidth_comma_counterexample:
  "normalizeAndRemoveCommas (Text [0xFF11, 0xFF12, 0xFF13, CH_FW_COMMA, 0xFF14, 0xFF15, 0xFF16])
     \<noteq> [0x31, 0x32, 0x33, 0x34, 0x35, 0x36]"
  by (simp add: normalize_defs)

section \<open>The conversion of a text in numeric format\<close>

lemma literalValue_not_NaN: "\<not> isNaN (literalValue l)"
  by (cases l) (simp_all add: literalValue_def isNaN_def split: option.splits)

lemma numeric_char_not_space:
  "c = CH_MINUS \<or> c = CH_DOT \<or> isDigit c \<Longrightarrow> \<not> isStrWhiteSpaceChar c"
  unfolding isStrWhiteSpaceChar_def isDigit_def
  by (auto; unat_arith)

lemma trimString_id:
  assumes "list_all (\<lambda>c. \<not> isStrWhiteSpaceChar c) s"
  shows "trimString s = s"
proof -
  have a: "dropWhile isStrWhiteSpaceChar s = s"
    using assms by (cases s) simp_all
  have "list_all (\<lambda>c. \<not> isStrWhiteSpaceChar c) (rev s)"
    using assms by (simp add: list_all_iff)
  then have b: "dropWhile isStrWhiteSpaceChar (rev s) = rev s"
    by (cases "rev s") simp_all
  show ?thesis
    by (simp add: trimString_def a b)
qed

lemma matches_chars:
  assumes "matchesNumericFormat a s"
  shows "list_all (\<lambda>c. c = CH_MINUS \<or> c = CH_DOT \<or> isDigit c) s"
proof -
  let ?body = "dropMinus s"
  have body: "list_all (\<lambda>c. c = CH_MINUS \<or> c = CH_DOT \<or> isDigit c) ?body"
  proof -
    have "?body = takeWhile isDigit ?body @ dropWhile isDigit ?body" by simp
    moreover have "list_all (\<lambda>c. c = CH_MINUS \<or> c = CH_DOT \<or> isDigit c) (takeWhile isDigit ?body)"
      by (simp add: list_all_iff) (meson set_takeWhileD)
    moreover have "list_all (\<lambda>c. c = CH_MINUS \<or> c = CH_DOT \<or> isDigit c) (dropWhile isDigit ?body)"
    proof (cases "dropWhile isDigit ?body")
      case Nil
      show ?thesis unfolding Nil by simp
    next
      case (Cons c r)
      from assms have "c = CH_DOT \<and> list_all isDigit r"
        unfolding matchesNumericFormat_def Cons by simp
      then show ?thesis
        unfolding Cons by (simp add: list_all_iff)
    qed
    ultimately show ?thesis
      using list_all_append [of "\<lambda>c. c = CH_MINUS \<or> c = CH_DOT \<or> isDigit c"
          "takeWhile isDigit ?body" "dropWhile isDigit ?body"]
      by simp
  qed
  then show ?thesis
    by (cases s) (auto simp: dropMinus_def split: if_splits)
qed

lemma splitSign_dropMinus:
  assumes "matchesNumericFormat a s"
  shows "snd (splitSign s) = dropMinus s"
proof (cases s)
  case Nil
  then show ?thesis by (simp add: splitSign_def dropMinus_def)
next
  case (Cons c r)
  have "c \<noteq> 0x2B"
  proof
    assume "c = 0x2B"
    with Cons assms show False
      by (simp add: matchesNumericFormat_def dropMinus_def isDigit_def)
  qed
  with Cons show ?thesis by (simp add: splitSign_def dropMinus_def)
qed

lemma parseUnsignedDecimal_Some:
  assumes "body \<noteq> []" "body \<noteq> [CH_DOT]"
    and "case dropWhile isDigit body of [] \<Rightarrow> True | c # r \<Rightarrow> a \<and> c = CH_DOT \<and> list_all isDigit r"
  shows "\<exists>m e. parseUnsignedDecimal body = Some (m, e)"
proof (cases "dropWhile isDigit body")
  case Nil
  have tw: "takeWhile isDigit body = body"
    using takeWhile_dropWhile_id [of isDigit body] unfolding Nil by simp
  show ?thesis
    unfolding parseUnsignedDecimal_def Let_def Nil tw
    using assms(1) by (simp add: parseExponentPart_def)
next
  case (Cons c r)
  from assms(3) have c: "c = CH_DOT" and r: "list_all isDigit r"
    unfolding Cons by simp_all
  from r have tw: "takeWhile isDigit r = r" and dw: "dropWhile isDigit r = []"
    by (simp_all add: list_all_iff)
  have "\<not> (takeWhile isDigit body = [] \<and> r = [])"
  proof
    assume "takeWhile isDigit body = [] \<and> r = []"
    then have "body = [CH_DOT]"
      using takeWhile_dropWhile_id [of isDigit body] unfolding Cons c by simp
    with assms(2) show False by simp
  qed
  then show ?thesis
    unfolding parseUnsignedDecimal_def Let_def Cons c
    by (auto simp add: tw dw parseExponentPart_def)
qed

lemma Number_js_of_numeric_format:
  assumes "matchesNumericFormat a v" "v \<noteq> []" "v \<noteq> [CH_MINUS]" "v \<noteq> [CH_DOT]"
    "v \<noteq> [CH_MINUS, CH_DOT]"
  shows "\<not> isNaN (Number_js v)"
proof -
  have "list_all (\<lambda>c. \<not> isStrWhiteSpaceChar c) v"
    using matches_chars [OF assms(1)] numeric_char_not_space by (auto simp: list_all_iff)
  then have trim: "trimString v = v" by (rule trimString_id)
  have body1: "dropMinus v \<noteq> []"
    using assms(2,3) by (cases v) (auto simp: dropMinus_def split: if_splits)
  have body2: "dropMinus v \<noteq> [CH_DOT]"
    using assms(4,5) by (cases v) (auto simp: dropMinus_def split: if_splits)
  have body3: "case dropWhile isDigit (dropMinus v) of [] \<Rightarrow> True
               | c # r \<Rightarrow> a \<and> c = CH_DOT \<and> list_all isDigit r"
    using assms(1) by (simp add: matchesNumericFormat_def)
  obtain m e where "parseUnsignedDecimal (dropMinus v) = Some (m, e)"
    using parseUnsignedDecimal_Some [OF body1 body2 body3] by blast
  then have "\<exists>l. parseDecimalLiteral v = Some l"
    using splitSign_dropMinus [OF assms(1)]
    by (simp add: parseDecimalLiteral_def split_beta)
  then show ?thesis
    using trim assms(2) literalValue_not_NaN by (auto simp add: Number_js_def)
qed

text \<open>
  Claim C9. Every non-empty value that passes the format test, with or without decimals,
  and is not one of the tokens \<open>-\<close>, \<open>.\<close> and \<open>-.\<close> converts to a number that is not
  \<open>NaN\<close>: the branch of the validator that \<open>isNaN\<close> guards after the format test is never
  taken. (Without decimals the format test itself refuses \<open>.\<close> and \<open>-.\<close>.)
\<close>

theorem conversion_never_fails:
  assumes "v \<noteq> []" and "matchesNumericFormat a v"
    and "v \<noteq> [CH_MINUS]" and "v \<noteq> [CH_DOT]" and "v \<noteq> [CH_MINUS, CH_DOT]"
  shows "\<not> isNaN (Number_js v)"
  using assms by (intro Number_js_of_numeric_format)

theorem conversion_never_fails_witness:
  "[CH_MINUS, CH_DOT, 0x35] \<noteq> [] \<and> matchesNumericFormat True [CH_MINUS, CH_DOT, 0x35]
   \<and> [CH_MINUS, CH_DOT, 0x35] \<noteq> [CH_MINUS] \<and> [CH_MINUS, CH_DOT, 0x35] \<noteq> [CH_DOT]
   \<and> [CH_MINUS, CH_DOT, 0x35] \<noteq> [CH_MINUS, CH_DOT]
   \<and> \<not> isNaN (Number_js [CH_MINUS, CH_DOT, 0x35])"
proof -
  have m: "matchesNumericFormat True [CH_MINUS, CH_DOT, 0x35]"
    by (simp add: matchesNumericFormat_def dropMinus_def isDigit_def)
  show ?thesis
    using m conversion_never_fails [OF _ m] by simp
qed

section \<open>The formatter: fractional digits and range errors\<close>

lemma digit_char: "k < 10 \<Longrightarrow> isDigit (0x30 + of_nat k)"
proof -
  assume "k < 10"
  then have "k \<in> {0, 1, 2, 3, 4, 5, 6, 7, 8, 9}" by auto
  then show ?thesis
    by (auto simp: isDigit_def)
qed

lemma natToDigits_digits: "list_all isDigit (natToDigits n)"
proof (induction n rule: natToDigits.induct)
  case (1 n)
  show ?case
  proof (cases "n < 10")
    case True
    then show ?thesis
      by (subst natToDigits.simps) (simp add: digit_char)
  next
    case False
    then show ?thesis
      using 1 by (subst natToDigits.simps) (simp add: digit_char)
  qed
qed

lemma digit_not_dot: "isDigit c \<Longrightarrow> c \<noteq> CH_DOT"
  by (auto simp: isDigit_def)

lemma digits_no_dot: "list_all isDigit ds \<Longrightarrow> CH_DOT \<notin> set ds"
  using digit_not_dot by (auto simp: list_all_iff)

lemma fixedDigits_shape:
  assumes "fixedDigits x f = (a, b)"
  shows "length b = f \<and> list_all isDigit a \<and> list_all isDigit b"
proof -
  define m where "m = replicate (f + 1 - length (natToDigits (nat \<lfloor>x * 10 ^ f + 1 / 2\<rfloor>))) 0x30
                      @ natToDigits (nat \<lfloor>x * 10 ^ f + 1 / 2\<rfloor>)"
  have ab: "a = take (length m - f) m" "b = drop (length m - f) m"
    using assms by (simp_all add: fixedDigits_def Let_def m_def)
  have len: "f + 1 \<le> length m"
    by (simp add: m_def)
  have "isDigit 0x30" by (simp add: isDigit_def)
  then have dig: "list_all isDigit m"
    using natToDigits_digits by (auto simp add: m_def list_all_iff)
  have "length b = f" using len by (simp add: ab)
  moreover have "list_all isDigit a" "list_all isDigit b"
    using dig unfolding ab list_all_iff by (auto dest: in_set_takeD in_set_dropD)
  ultimately show ?thesis by simp
qed

lemma groupRev_set: "set (groupRev r) \<subseteq> insert CH_COMMA (set r)"
  by (induction r rule: groupRev.induct) auto

lemma groupDigits_no_dot: "list_all isDigit a \<Longrightarrow> CH_DOT \<notin> set (groupDigits a)"
proof -
  assume "list_all isDigit a"
  then have "CH_DOT \<notin> set (rev a)" using digits_no_dot by simp
  then have "CH_DOT \<notin> set (groupRev (rev a))"
    using groupRev_set [of "rev a"] by auto
  then show ?thesis by (simp add: groupDigits_def)
qed

lemma dropWhile_no_dot: "CH_DOT \<notin> set pre \<Longrightarrow> dropWhile (\<lambda>c. c \<noteq> CH_DOT) pre = []"
  by (induction pre) auto

lemma afterPoint_no_dot: "CH_DOT \<notin> set pre \<Longrightarrow> afterPoint pre = []"
  by (simp add: afterPoint_def dropWhile_no_dot)

lemma afterPoint_append: "CH_DOT \<notin> set pre \<Longrightarrow> afterPoint (pre @ CH_DOT # b) = b"
  by (induction pre) (auto simp: afterPoint_def)

lemma localeNotation_fraction:
  "length (afterPoint (localeNotation x f)) = f"
  "length (afterPoint (CH_MINUS # localeNotation x f)) = f"
proof -
  obtain a b where ab: "fixedDigits x f = (a, b)" by (cases "fixedDigits x f")
  from fixedDigits_shape [OF ab] have b: "length b = f" and a: "list_all isDigit a" by simp_all
  have nd: "CH_DOT \<notin> set (groupDigits a)" "CH_DOT \<notin> set (CH_MINUS # groupDigits a)"
    using groupDigits_no_dot [OF a] by simp_all
  show "length (afterPoint (localeNotation x f)) = f"
    using afterPoint_no_dot [OF nd(1)] afterPoint_append [OF nd(1), of b] b
    by (simp add: localeNotation_def ab)
  show "length (afterPoint (CH_MINUS # localeNotation x f)) = f"
    using afterPoint_no_dot [OF nd(2)] afterPoint_append [OF nd(2), of b] b
    by (simp add: localeNotation_def ab)
qed

lemma toLocaleString_fraction:
  assumes "isFiniteNum x" "fractionDigitsOption d = Inr f"
  shows "\<exists>out. toLocaleString_enUS x d = Inr out \<and> length (afterPoint out) = f"
  using assms
  by (cases x) (simp_all add: toLocaleString_enUS_def isFiniteNum_def localeNotation_fraction)

lemma toLocaleString_returns:
  assumes "fractionDigitsOption d = Inr f"
  shows "\<exists>out. toLocaleString_enUS x d = Inr out"
  using assms by (simp add: toLocaleString_enUS_def)

lemma fractionDigitsOption_length:
  "n \<le> 100 \<Longrightarrow> fractionDigitsOption (Fin (of_nat n)) = Inr n"
  by (simp add: fractionDigitsOption_def)

lemma fractionDigitsOption_zero: "fractionDigitsOption (Fin 0) = Inr 0"
  by (simp add: fractionDigitsOption_def)

lemma split_js_not_Nil: "split_js sep s \<noteq> []"
  by (induction s) (auto split: list.splits)

lemma split_js_no_sep: "sep \<notin> set r \<Longrightarrow> split_js sep r = [r]"
  by (induction r) auto

lemma split_js_append:
  "sep \<notin> set pre \<Longrightarrow> split_js sep (pre @ sep # r) = pre # split_js sep r"
  by (induction pre) auto

lemma matches_decompose:
  assumes "matchesNumericFormat a v"
  shows "CH_DOT \<notin> set v
     \<or> (\<exists>pre r. v = pre @ CH_DOT # r \<and> CH_DOT \<notin> set pre \<and> list_all isDigit r)"
proof (cases "dropWhile isDigit (dropMinus v)")
  case Nil
  then have "list_all isDigit (dropMinus v)"
    by (simp add: list_all_iff)
  then have "CH_DOT \<notin> set (dropMinus v)" by (rule digits_no_dot)
  then have "CH_DOT \<notin> set v"
    by (cases v) (auto simp: dropMinus_def split: if_splits)
  then show ?thesis by simp
next
  case (Cons c r)
  from assms have c: "c = CH_DOT" and r: "list_all isDigit r"
    unfolding matchesNumericFormat_def Cons by simp_all
  have body: "dropMinus v = takeWhile isDigit (dropMinus v) @ CH_DOT # r"
    using takeWhile_dropWhile_id [of isDigit "dropMinus v"] unfolding Cons c by simp
  have nd: "CH_DOT \<notin> set (takeWhile isDigit (dropMinus v))"
    using digit_not_dot by (auto dest: set_takeWhileD)
  show ?thesis
  proof (cases "\<exists>t. v = CH_MINUS # t")
    case True
    then obtain t where t: "v = CH_MINUS # t" by blast
    then have "dropMinus v = t" by (simp add: dropMinus_def)
    with body t have "v = (CH_MINUS # takeWhile isDigit (dropMinus v)) @ CH_DOT # r" by simp
    moreover have "CH_DOT \<notin> set (CH_MINUS # takeWhile isDigit (dropMinus v))"
      using nd by simp
    ultimately show ?thesis using r by blast
  next
    case False
    then have "dropMinus v = v"
      by (cases v) (auto simp: dropMinus_def)
    with body nd r show ?thesis by metis
  qed
qed

lemma secondPart_of_format:
  assumes "matchesNumericFormat a v"
  shows "secondPart v = afterPoint v"
  using matches_decompose [OF assms]
proof
  assume nd: "CH_DOT \<notin> set v"
  then show ?thesis
    by (simp add: secondPart_def split_js_no_sep afterPoint_no_dot)
next
  assume "\<exists>pre r. v = pre @ CH_DOT # r \<and> CH_DOT \<notin> set pre \<and> list_all isDigit r"
  then obtain pre r where v: "v = pre @ CH_DOT # r" and pre: "CH_DOT \<notin> set pre"
    and r: "list_all isDigit r" by blast
  have "CH_DOT \<notin> set r" using r by (rule digits_no_dot)
  then show ?thesis
    by (simp add: v secondPart_def split_js_append [OF pre] split_js_no_sep afterPoint_append [OF pre])
qed

lemma format_of_number:
  assumes "\<not> isInProgressToken v" "\<not> isNaN (Number_js v)"
  shows "formatNumberWithCommas v True d
           = toLocaleString_enUS (Number_js v)
               (case d of Some places \<Rightarrow> places
                | None \<Rightarrow> if secondPart v = [] then Fin 0 else Fin (of_nat (length (secondPart v))))"
  using assms
  by (auto simp add: formatNumberWithCommas_def Let_def secondPart_def split: option.splits list.splits)

text \<open>
  Claim C3, as the code has it. For a value in numeric format that is not a token of an
  input in progress and whose number is finite, with decimals allowed: when
  \<open>decimalPlaces\<close> is set, to a number that \<open>toLocaleString\<close> accepts and rounds down to
  \<open>f\<close>, the formatter itself pads or rounds and its output has exactly \<open>f\<close> digits after
  the point; when \<open>decimalPlaces\<close> is not set and the value has at most 100 digits after
  the point, the output has as many digits after the point as the value.
\<close>

theorem formatter_fraction_digits:
  assumes "matchesNumericFormat True v" and "\<not> isInProgressToken v"
    and "isFiniteNum (Number_js v)"
  shows "(fractionDigitsOption d = Inr f \<longrightarrow>
            (\<exists>out. formatNumberWithCommas v True (Some d) = Inr out \<and> length (afterPoint out) = f))
       \<and> (length (afterPoint v) \<le> 100 \<longrightarrow>
            (\<exists>out. formatNumberWithCommas v True None = Inr out
                   \<and> length (afterPoint out) = length (afterPoint v)))"
proof -
  have nn: "\<not> isNaN (Number_js v)"
    using assms(3) by (cases "Number_js v") (simp_all add: isFiniteNum_def isNaN_def)
  have sp: "secondPart v = afterPoint v"
    using assms(1) by (rule secondPart_of_format)
  have one: "\<exists>out. formatNumberWithCommas v True (Some d) = Inr out \<and> length (afterPoint out) = f"
    if "fractionDigitsOption d = Inr f"
    using toLocaleString_fraction [OF assms(3) that]
    by (simp add: format_of_number [OF assms(2) nn])
  have two: "\<exists>out. formatNumberWithCommas v True None = Inr out
                   \<and> length (afterPoint out) = length (afterPoint v)"
    if "length (afterPoint v) \<le> 100"
  proof (cases "afterPoint v = []")
    case True
    then show ?thesis
      using toLocaleString_fraction [OF assms(3) fractionDigitsOption_zero]
      by (simp add: format_of_number [OF assms(2) nn] sp)
  next
    case False
    then show ?thesis
      using toLocaleString_fraction [OF assms(3) fractionDigitsOption_length [OF that]]
      by (simp add: format_of_number [OF assms(2) nn] sp)
  qed
  from one two show ?thesis by blast
qed

lemma matches_1_5: "matchesNumericFormat True [0x31, CH_DOT, 0x35]"
  by (simp add: matchesNumericFormat_def dropMinus_def isDigit_def)

theorem formatter_fraction_digits_witness:
  "matchesNumericFormat True [0x31, CH_DOT, 0x35]
   \<and> \<not> isInProgressToken [0x31, CH_DOT, 0x35]
   \<and> isFiniteNum (Number_js [0x31, CH_DOT, 0x35])
   \<and> fractionDigitsOption (Fin 2) = Inr 2
   \<and> length (afterPoint [0x31, CH_DOT, 0x35]) \<le> 100
   \<and> (\<exists>out. formatNumberWithCommas [0x31, CH_DOT, 0x35] True (Some (Fin 2)) = Inr out
             \<and> length (afterPoint out) = 2)
   \<and> (\<exists>out. formatNumberWithCommas [0x31, CH_DOT, 0x35] True None = Inr out
             \<and> length (afterPoint out) = length (afterPoint [0x31, CH_DOT, 0x35]))"
proof -
  have a: "matchesNumericFormat True [0x31, CH_DOT, 0x35]" by (rule matches_1_5)
  have b: "\<not> isInProgressToken [0x31, CH_DOT, 0x35]" by (simp add: isInProgressToken_def)
  have c: "isFiniteNum (Number_js [0x31, CH_DOT, 0x35])" by (simp add: Number_1_5 isFiniteNum_def)
  have d: "fractionDigitsOption (Fin 2) = Inr 2" by (simp add: fractionDigitsOption_def)
  have e: "length (afterPoint [0x31, CH_DOT, 0x35]) \<le> 100" by (simp add: afterPoint_def)
  show ?thesis
    using formatter_fraction_digits [OF a b c, of "Fin 2" 2] a b c d e by simp
qed

text \<open>
  Claim C3 as stated fails: with \<open>decimalPlaces = 2\<close> the formatter turns 1.5 into 1.50,
  whose part after the point is not that of the value.
\<close>

theorem formatter_pads_counterexample:
  "formatNumberWithCommas [0x31, CH_DOT, 0x35] True (Some (Fin 2)) = Inr [0x31, CH_DOT, 0x35, 0x30]
   \<and> afterPoint [0x31, CH_DOT, 0x35, 0x30] \<noteq> afterPoint [0x31, CH_DOT, 0x35]"
  by (simp add: formatNumberWithCommas_def isInProgressToken_def Number_1_5 isNaN_def
      toLocaleString_1_5 afterPoint_def)

lemma placesInRange_option: "placesInRange (Some d) \<Longrightarrow> \<exists>f. fractionDigitsOption d = Inr f"
  by (cases d) (simp_all add: placesInRange_def fractionDigitsOption_def)

lemma toFixed_returns: "placesInRange (Some d) \<Longrightarrow> \<exists>r. toFixed x d = Inr r"
proof (cases d)
  case (Fin q)
  assume "placesInRange (Some d)"
  with Fin have q: "0 \<le> q" "q \<le> 100" by (simp_all add: placesInRange_def)
  then have "0 \<le> \<lfloor>q\<rfloor>" "\<lfloor>q\<rfloor> \<le> 100"
    by (simp_all add: floor_le_iff) 
  then show ?thesis
    using q by (simp add: Fin toFixed_def ToIntegerOrInfinity_def)
qed (simp_all add: placesInRange_def toFixed_def ToIntegerOrInfinity_def)

lemma format_fraction_digits_ok:
  assumes "placesInRange d" "d = None \<longrightarrow> length (secondPart v) \<le> 100"
  shows "\<exists>f. fractionDigitsOption
           (if a then (case d of Some places \<Rightarrow> places
                        | None \<Rightarrow> (case split_js CH_DOT v of
                             _ # decimalPartStr # _ \<Rightarrow>
                               if decimalPartStr = [] then Fin 0
                               else Fin (of_nat (length decimalPartStr))
                           | _ \<Rightarrow> Fin 0))
            else Fin 0) = Inr f"
proof (cases a)
  case False
  then show ?thesis by (simp add: fractionDigitsOption_zero)
next
  case True
  show ?thesis
  proof (cases d)
    case (Some places)
    then show ?thesis using True assms(1) placesInRange_option by simp
  next
    case None
    with assms(2) have "length (secondPart v) \<le> 100" by simp
    then show ?thesis
      using True None
      by (auto simp add: secondPart_def fractionDigitsOption_zero fractionDigitsOption_length
          split: list.splits)
  qed
qed

lemma format_returns:
  assumes "placesInRange d" "d = None \<longrightarrow> length (secondPart v) \<le> 100"
  shows "\<exists>out. formatNumberWithCommas v a d = Inr out"
proof (cases "isInProgressToken v")
  case True
  then show ?thesis by (simp add: formatNumberWithCommas_def)
next
  case tok: False
  show ?thesis
  proof (cases "isNaN (Number_js v)")
    case True
    obtain z where z: "toLocaleString_enUS (Number_js (hd (split_js CH_DOT v))) (Fin 0) = Inr z"
      using toLocaleString_returns [OF fractionDigitsOption_zero] by blast
    show ?thesis
      using tok True z
      by (auto simp add: formatNumberWithCommas_def Let_def split: list.splits option.splits)
  next
    case False
    obtain f where "fractionDigitsOption
           (if a then (case d of Some places \<Rightarrow> places
                        | None \<Rightarrow> (case split_js CH_DOT v of
                             _ # decimalPartStr # _ \<Rightarrow>
                               if decimalPartStr = [] then Fin 0
                               else Fin (of_nat (length decimalPartStr))
                           | _ \<Rightarrow> Fin 0))
            else Fin 0) = Inr f"
      using format_fraction_digits_ok [OF assms] by blast
    from toLocaleString_returns [OF this, of "Number_js v"] show ?thesis
      using tok False by (simp add: formatNumberWithCommas_def Let_def)
  qed
qed

lemma blur_returns:
  assumes "placesInRange (decimalPlaces p)"
  shows "\<exists>r. handleInternalBlur p st = Inr r"
proof (cases "decimalPlaces p")
  case None
  then show ?thesis
    by (simp add: handleInternalBlur_def Let_def split_beta)
next
  case (Some places)
  with assms obtain r where "toFixed (Number_js (internalValue st)) places = Inr r"
    using toFixed_returns by metis
  then show ?thesis
    using Some by (simp add: handleInternalBlur_def Let_def split_beta)
qed

lemma list_all_replicate_digit: "list_all isDigit (replicate n 0x30)"
  by (simp add: list_all_iff isDigit_def)

lemma long_fraction_matches: "matchesNumericFormat True (0x30 # CH_DOT # replicate n 0x30)"
  using list_all_replicate_digit [of n]
  by (simp add: matchesNumericFormat_def dropMinus_def isDigit_def)

lemma long_fraction_format:
  "formatNumberWithCommas (0x30 # CH_DOT # replicate 101 0x30) True None = Inl RangeError"
proof -
  let ?v = "0x30 # CH_DOT # replicate 101 0x30 :: jsstring"
  have m: "matchesNumericFormat True ?v" by (rule long_fraction_matches)
  have tok: "\<not> isInProgressToken ?v" by (simp add: isInProgressToken_def)
  have nn: "\<not> isNaN (Number_js ?v)"
    by (rule Number_js_of_numeric_format [OF m]) simp_all
  have "afterPoint ?v = replicate 101 0x30"
    using afterPoint_append [of "[0x30]" "replicate 101 0x30"] by simp
  then have sp: "secondPart ?v = replicate 101 0x30"
    using secondPart_of_format [OF m] by simp
  show ?thesis
    by (simp add: format_of_number [OF tok nn] sp toLocaleString_enUS_def fractionDigitsOption_def)
qed

lemma verdict_5_negative_places:
  "allowDecimal p \<Longrightarrow> decimalPlaces p = Some (Fin (- 1)) \<Longrightarrow> min_prop p = None
   \<Longrightarrow> max_prop p = None \<Longrightarrow> validationVerdict p [0x35] = (False, [])"
  by (simp add: validationVerdict_def matchesNumericFormat_def dropMinus_def isDigit_def
      Number_5 isNaN_def tooManyDecimals_def rangeCheck_def)

lemma negative_places_format:
  "formatNumberWithCommas [0x35] True (Some (Fin (- 1))) = Inl RangeError"
  by (simp add: formatNumberWithCommas_def isInProgressToken_def Number_5 isNaN_def
      toLocaleString_enUS_def fractionDigitsOption_def)

lemma negative_places_blur:
  "handleInternalBlur
     \<lparr>required = False, allowDecimal = True, decimalPlaces = Some (Fin (- 1)), min_prop = None,
      max_prop = None, onValueChange = True, muiOnChange = False, muiOnBlur = False\<rparr>
     \<lparr>internalValue = [0x35], error = False, internalHelperText = [], isComposing = False\<rparr>
   = Inl RangeError"
  by (simp add: Number_5 isNaN_def handleInternalBlur_def validateAndSetError_def
      verdict_5_negative_places toFixed_def ToIntegerOrInfinity_def)

text \<open>
  Claim C4, as the code has it. The formatter returns a text, for every value and either
  setting of \<open>allowDecimal\<close>, when \<open>decimalPlaces\<close> is a number between 0 and 100, or is not
  set and the second part of the value split at its points has at most 100 code units;
  the blur handler returns when \<open>decimalPlaces\<close> is not set or is between 0 and 100.
  (The bound 100 is that of the current editions of ECMA-262 and ECMA-402.)
\<close>

theorem no_range_error_within_limits:
  assumes "placesInRange d" and "d = None \<longrightarrow> length (secondPart v) \<le> 100"
  shows "(\<exists>out. formatNumberWithCommas v a d = Inr out)
       \<and> (\<exists>r. handleInternalBlur (p\<lparr>decimalPlaces := d\<rparr>) st = Inr r)"
  using format_returns [OF assms, of a] blur_returns [of "p\<lparr>decimalPlaces := d\<rparr>" st] assms(1)
  by simp

theorem no_range_error_within_limits_witness:
  "placesInRange (Some (Fin 2))
   \<and> placesInRange None
   \<and> length (secondPart [0x31, CH_DOT, 0x35]) \<le> 100
   \<and> (\<exists>out. formatNumberWithCommas [0x31, CH_DOT, 0x35] True (Some (Fin 2)) = Inr out)
   \<and> (\<exists>out. formatNumberWithCommas [0x31, CH_DOT, 0x35] True None = Inr out)
   \<and> (\<exists>r. handleInternalBlur
        \<lparr>required = False, allowDecimal = True, decimalPlaces = Some (Fin 2), min_prop = None,
         max_prop = None, onValueChange = True, muiOnChange = False, muiOnBlur = False\<rparr>
        \<lparr>internalValue = [0x31, CH_DOT, 0x35], error = False, internalHelperText = [],
         isComposing = False\<rparr> = Inr r)"
proof -
  have a: "placesInRange (Some (Fin 2))" and b: "placesInRange None"
    by (simp_all add: placesInRange_def)
  have c: "length (secondPart [0x31, CH_DOT, 0x35]) \<le> 100"
    by (simp add: secondPart_def)
  show ?thesis
    using a b c
      no_range_error_within_limits [of "Some (Fin 2)" "[0x31, CH_DOT, 0x35]" True
        "\<lparr>required = False, allowDecimal = True, decimalPlaces = None, min_prop = None,
          max_prop = None, onValueChange = True, muiOnChange = False, muiOnBlur = False\<rparr>"
        "\<lparr>internalValue = [0x31, CH_DOT, 0x35], error = False, internalHelperText = [],
          isComposing = False\<rparr>"]
      no_range_error_within_limits [of None "[0x31, CH_DOT, 0x35]" True]
    by simp
qed

text \<open>
  Claim C4 as stated fails: \<open>decimalPlaces = -1\<close> makes the formatter and the blur handler
  leave with a RangeError, and with \<open>decimalPlaces\<close> not set so does a value of 101 digits
  after the point.
\<close>

theorem range_error_counterexample:
  "formatNumberWithCommas [0x35] True (Some (Fin (- 1))) = Inl RangeError
   \<and> formatNumberWithCommas (0x30 # CH_DOT # replicate 101 0x30) True None = Inl RangeError
   \<and> handleInternalBlur
        \<lparr>required = False, allowDecimal = True, decimalPlaces = Some (Fin (- 1)), min_prop = None,
         max_prop = None, onValueChange = True, muiOnChange = False, muiOnBlur = False\<rparr>
        \<lparr>internalValue = [0x35], error = False, internalHelperText = [], isComposing = False\<rparr>
       = Inl RangeError"
  using negative_places_format long_fraction_format negative_places_blur by blast

section \<open>The validator: verdicts\<close>

lemma messages_nonempty:
  "MSG_REQUIRED \<noteq> []" "MSG_FORMAT_DECIMAL \<noteq> []" "MSG_FORMAT_INTEGER \<noteq> []"
  "MSG_NOT_A_NUMBER \<noteq> []" "MSG_DECIMALS_PREFIX \<noteq> []" "MSG_MIN_SUFFIX \<noteq> []"
  "MSG_MAX_SUFFIX \<noteq> []"
  by (simp_all add: MSG_REQUIRED_def MSG_FORMAT_DECIMAL_def MSG_FORMAT_INTEGER_def
      MSG_NOT_A_NUMBER_def MSG_DECIMALS_PREFIX_def MSG_MIN_SUFFIX_def MSG_MAX_SUFFIX_def)

lemma rangeCheck_consistent: "fst (rangeCheck p n) = (snd (rangeCheck p n) \<noteq> [])"
  by (simp add: rangeCheck_def Let_def messages_nonempty split: option.splits)

lemma validationVerdict_consistent:
  "fst (validationVerdict p v) = (snd (validationVerdict p v) \<noteq> [])"
  by (simp add: validationVerdict_def Let_def messages_nonempty rangeCheck_consistent
      split: option.splits)

lemma verdict_in_progress:
  "\<not> required p \<Longrightarrow> validationVerdict p [] = (False, [])"
  "validationVerdict p [CH_MINUS] = (False, [])"
  "allowDecimal p \<Longrightarrow> validationVerdict p [CH_DOT] = (False, [])"
  "allowDecimal p \<Longrightarrow> validationVerdict p [CH_MINUS, CH_DOT] = (False, [])"
  by (simp_all add: validationVerdict_def matchesNumericFormat_def dropMinus_def isDigit_def)

text \<open>
  Claim C7. When \<open>required\<close> is false, the validator reports no error for the tokens of
  an input in progress: the empty text and the lone minus sign under any constraints, the
  lone point and minus-point whenever decimals are allowed. The verdict is the same
  whatever \<open>decimalPlaces\<close>, \<open>min\<close> and \<open>max\<close> are, so none of those checks is made.
\<close>

theorem in_progress_tokens_pass:
  assumes "\<not> required p"
  shows "validateAndSetError p [] st = (False, st\<lparr>error := False, internalHelperText := []\<rparr>)
     \<and> validateAndSetError p [CH_MINUS] st
         = (False, st\<lparr>error := False, internalHelperText := []\<rparr>)
     \<and> (allowDecimal p \<longrightarrow>
          validateAndSetError p [CH_DOT] st
            = (False, st\<lparr>error := False, internalHelperText := []\<rparr>)
          \<and> validateAndSetError p [CH_MINUS, CH_DOT] st
              = (False, st\<lparr>error := False, internalHelperText := []\<rparr>))"
  using assms by (simp add: validateAndSetError_def verdict_in_progress)

theorem in_progress_tokens_pass_witness:
  "\<not> required \<lparr>required = False, allowDecimal = True, decimalPlaces = Some (Fin 0),
                min_prop = Some (Fin 10), max_prop = Some (Fin 5), onValueChange = True,
                muiOnChange = True, muiOnBlur = True\<rparr>
   \<and> allowDecimal \<lparr>required = False, allowDecimal = True, decimalPlaces = Some (Fin 0),
                min_prop = Some (Fin 10), max_prop = Some (Fin 5), onValueChange = True,
                muiOnChange = True, muiOnBlur = True\<rparr>
   \<and> validateAndSetError
        \<lparr>required = False, allowDecimal = True, decimalPlaces = Some (Fin 0),
         min_prop = Some (Fin 10), max_prop = Some (Fin 5), onValueChange = True,
         muiOnChange = True, muiOnBlur = True\<rparr>
        [CH_MINUS, CH_DOT]
        \<lparr>internalValue = [CH_MINUS, CH_DOT], error = True, internalHelperText = [0x21],
         isComposing = False\<rparr>
       = (False, \<lparr>internalValue = [CH_MINUS, CH_DOT], error = False, internalHelperText = [],
                  isComposing = False\<rparr>)"
  using in_progress_tokens_pass
    [of "\<lparr>required = False, allowDecimal = True, decimalPlaces = Some (Fin 0),
          min_prop = Some (Fin 10), max_prop = Some (Fin 5), onValueChange = True,
          muiOnChange = True, muiOnBlur = True\<rparr>"
        "\<lparr>internalValue = [CH_MINUS, CH_DOT], error = True, internalHelperText = [0x21],
          isComposing = False\<rparr>"]
  by simp

text \<open>
  Claim C10. For every value and every configuration, the verdict of
  \<open>validateAndSetError\<close> has an error exactly when its helper message is not empty; the
  error flag stored in the state is the one returned.
\<close>

theorem error_iff_message:
  "fst (validateAndSetError p v st)
     = (internalHelperText (snd (validateAndSetError p v st)) \<noteq> [])
   \<and> error (snd (validateAndSetError p v st)) = fst (validateAndSetError p v st)"
  using validationVerdict_consistent [of p v]
  by (simp add: validateAndSetError_def split_beta)

theorem error_iff_message_witness:
  "fst (validateAndSetError
          \<lparr>required = True, allowDecimal = False, decimalPlaces = None, min_prop = None,
           max_prop = None, onValueChange = False, muiOnChange = False, muiOnBlur = False\<rparr>
          []
          \<lparr>internalValue = [], error = False, internalHelperText = [], isComposing = False\<rparr>)
   \<and> internalHelperText (snd (validateAndSetError
          \<lparr>required = True, allowDecimal = False, decimalPlaces = None, min_prop = None,
           max_prop = None, onValueChange = False, muiOnChange = False, muiOnBlur = False\<rparr>
          []
          \<lparr>internalValue = [], error = False, internalHelperText = [], isComposing = False\<rparr>))
       \<noteq> []"
  using error_iff_message
    [of "\<lparr>required = True, allowDecimal = False, decimalPlaces = None, min_prop = None,
          max_prop = None, onValueChange = False, muiOnChange = False, muiOnBlur = False\<rparr>"
        "[]"
        "\<lparr>internalValue = [], error = False, internalHelperText = [], isComposing = False\<rparr>"]
  by (simp add: validateAndSetError_def validationVerdict_def)

section \<open>The controller: edits and blur\<close>

text \<open>
  Claim C5. With \<open>decimalPlaces = 2\<close> and decimals allowed (and no bound on the range), an
  edit outside a composition that sets the value to 1.5, followed by a blur, leaves the
  value 1.50 with no error, and \<open>onValueChange\<close> is called with 1.50.
\<close>

theorem blur_pads_to_two_places:
  "(let q = p\<lparr>allowDecimal := True, decimalPlaces := Some (Fin 2), min_prop := None,
              max_prop := None, onValueChange := True\<rparr>;
        st1 = fst (handleInternalChange q [0x31, CH_DOT, 0x35] (st\<lparr>isComposing := False\<rparr>))
    in internalValue st1 = [0x31, CH_DOT, 0x35]
       \<and> error st1 = False
       \<and> handleInternalBlur q st1
           = Inr (st1\<lparr>internalValue := [0x31, CH_DOT, 0x35, 0x30], error := False,
                      internalHelperText := []\<rparr>,
                  ValueChange [0x31, CH_DOT, 0x35, 0x30] # blurNotification q))"
  by (simp add: handleInternalChange_def handleInternalBlur_def validateAndSetError_def
      normalize_1_5 verdict_1_5 verdict_1_50 Number_1_5 isNaN_def toFixed_1_5 Let_def)

theorem blur_pads_to_two_places_witness:
  "handleInternalBlur
     \<lparr>required = True, allowDecimal = True, decimalPlaces = Some (Fin 2), min_prop = None,
      max_prop = None, onValueChange = True, muiOnChange = False, muiOnBlur = False\<rparr>
     (fst (handleInternalChange
        \<lparr>required = True, allowDecimal = True, decimalPlaces = Some (Fin 2), min_prop = None,
         max_prop = None, onValueChange = True, muiOnChange = False, muiOnBlur = False\<rparr>
        [0x31, CH_DOT, 0x35]
        \<lparr>internalValue = [], error = False, internalHelperText = [], isComposing = False\<rparr>))
   = Inr (\<lparr>internalValue = [0x31, CH_DOT, 0x35, 0x30], error = False, internalHelperText = [],
           isComposing = False\<rparr>,
          [ValueChange [0x31, CH_DOT, 0x35, 0x30]])"
  using blur_pads_to_two_places
    [of "\<lparr>required = True, allowDecimal = True, decimalPlaces = Some (Fin 2), min_prop = None,
          max_prop = None, onValueChange = True, muiOnChange = False, muiOnBlur = False\<rparr>"
        "\<lparr>internalValue = [], error = False, internalHelperText = [], isComposing = False\<rparr>"]
  by (simp add: Let_def blurNotification_def handleInternalChange_def validateAndSetError_def
      normalize_1_5 verdict_1_5)

lemma normalize_12_3:
  "normalizeAndRemoveCommas (Text [0x31, 0x32, CH_DOT, 0x33]) = [0x31, 0x32, CH_DOT, 0x33]"
  by (simp add: normalize_defs)

lemma verdict_12_3_integer:
  "\<not> allowDecimal p \<Longrightarrow> validationVerdict p [0x31, 0x32, CH_DOT, 0x33] = (True, MSG_FORMAT_INTEGER)"
  by (simp add: validationVerdict_def matchesNumericFormat_def dropMinus_def isDigit_def)

text \<open>
  Claim C6. With decimals not allowed, an edit outside a composition with the input 12.3
  gives the format error of integer fields and keeps the value 12.3 as typed; a blur
  that follows changes nothing: the value is still 12.3, the error is still there, no
  rounding is made and \<open>onValueChange\<close> is not called. The value is displayed as typed.
\<close>

theorem integer_field_keeps_fraction_as_error:
  "(let q = p\<lparr>allowDecimal := False\<rparr>;
        st1 = fst (handleInternalChange q [0x31, 0x32, CH_DOT, 0x33] (st\<lparr>isComposing := False\<rparr>))
    in internalValue st1 = [0x31, 0x32, CH_DOT, 0x33]
       \<and> error st1
       \<and> internalHelperText st1 = MSG_FORMAT_INTEGER
       \<and> handleInternalBlur q st1 = Inr (st1, blurNotification q)
       \<and> displayValue q st1 = Inr [0x31, 0x32, CH_DOT, 0x33])"
  by (simp add: handleInternalChange_def handleInternalBlur_def validateAndSetError_def
      normalize_12_3 verdict_12_3_integer displayValue_def Let_def)

theorem integer_field_keeps_fraction_as_error_witness:
  "handleInternalBlur
     \<lparr>required = False, allowDecimal = False, decimalPlaces = Some (Fin 0), min_prop = None,
      max_prop = None, onValueChange = True, muiOnChange = False, muiOnBlur = True\<rparr>
     \<lparr>internalValue = [0x31, 0x32, CH_DOT, 0x33], error = True,
      internalHelperText = MSG_FORMAT_INTEGER, isComposing = False\<rparr>
   = Inr (\<lparr>internalValue = [0x31, 0x32, CH_DOT, 0x33], error = True,
           internalHelperText = MSG_FORMAT_INTEGER, isComposing = False\<rparr>, [BlurEvent])"
  using integer_field_keeps_fraction_as_error
    [of "\<lparr>required = False, allowDecimal = False, decimalPlaces = Some (Fin 0), min_prop = None,
          max_prop = None, onValueChange = True, muiOnChange = False, muiOnBlur = True\<rparr>"
        "\<lparr>internalValue = [], error = False, internalHelperText = [], isComposing = False\<rparr>"]
  by (simp add: Let_def blurNotification_def handleInternalChange_def validateAndSetError_def
      normalize_12_3 verdict_12_3_integer)

lemma validateAndSetError_value:
  "internalValue (snd (validateAndSetError p v st)) = internalValue st"
  by (simp add: validateAndSetError_def split_beta)

lemma ValueChange_not_blur: "ValueChange v \<notin> set (blurNotification p)"
  by (simp add: blurNotification_def)

lemma change_notifications:
  "(ValueChange v \<in> set (snd (handleInternalChange p t st)))
     = (\<not> isComposing st \<and> onValueChange p \<and> v = normalizeAndRemoveCommas (Text t))"
  by (auto simp add: handleInternalChange_def Let_def)

lemma blur_notifications:
  "case handleInternalBlur p st of
     Inl e \<Rightarrow> True
   | Inr (st', ns) \<Rightarrow>
       (ValueChange v \<in> set ns)
         = (onValueChange p \<and> internalValue st' \<noteq> internalValue st \<and> v = internalValue st')"
  by (auto simp add: handleInternalBlur_def Let_def split_beta validateAndSetError_value
      ValueChange_not_blur split: option.splits sum.splits)

text \<open>
  Claim C8, as the code has it. \<open>onValueChange\<close>, when supplied, is called on every edit
  outside a composition, with the normalized value, whether or not that value differs
  from the current one, and on no edit during a composition; a blur calls it exactly
  when the rounding changes the value, with the rounded value.
\<close>

theorem value_change_notifications:
  "(ValueChange v \<in> set (snd (handleInternalChange p t st)))
     = (\<not> isComposing st \<and> onValueChange p \<and> v = normalizeAndRemoveCommas (Text t))
   \<and> (case handleInternalBlur p st of
         Inl e \<Rightarrow> True
       | Inr (st', ns) \<Rightarrow>
           (ValueChange v \<in> set ns)
             = (onValueChange p \<and> internalValue st' \<noteq> internalValue st
                \<and> v = internalValue st'))"
  using change_notifications [where v = v and p = p and t = t and st = st]
    blur_notifications [where v = v and p = p and st = st] by blast

lemma normalize_5: "normalizeAndRemoveCommas (Text [0x35]) = [0x35]"
  by (simp add: normalize_defs)

theorem value_change_notifications_witness:
  "ValueChange [0x35]
     \<in> set (snd (handleInternalChange
          \<lparr>required = False, allowDecimal = True, decimalPlaces = None, min_prop = None,
           max_prop = None, onValueChange = True, muiOnChange = True, muiOnBlur = True\<rparr>
          [0x35]
          \<lparr>internalValue = [0x35], error = False, internalHelperText = [],
           isComposing = False\<rparr>))
   \<and> ValueChange [0x35]
     \<notin> set (snd (handleInternalChange
          \<lparr>required = False, allowDecimal = True, decimalPlaces = None, min_prop = None,
           max_prop = None, onValueChange = True, muiOnChange = True, muiOnBlur = True\<rparr>
          [0x35]
          \<lparr>internalValue = [0x35], error = False, internalHelperText = [],
           isComposing = True\<rparr>))"
  using value_change_notifications
    [of "[0x35]"
        "\<lparr>required = False, allowDecimal = True, decimalPlaces = None, min_prop = None,
          max_prop = None, onValueChange = True, muiOnChange = True, muiOnBlur = True\<rparr>"
        "[0x35]"
        "\<lparr>internalValue = [0x35], error = False, internalHelperText = [],
          isComposing = False\<rparr>"]
    value_change_notifications
    [of "[0x35]"
        "\<lparr>required = False, allowDecimal = True, decimalPlaces = None, min_prop = None,
          max_prop = None, onValueChange = True, muiOnChange = True, muiOnBlur = True\<rparr>"
        "[0x35]"
        "\<lparr>internalValue = [0x35], error = False, internalHelperText = [],
          isComposing = True\<rparr>"]
  by (simp add: normalize_5)

lemma Number_1234: "Number_js [0x31, 0x32, 0x33, 0x34] = Fin 1234"
  by (simp add: number_defs)

lemma normalize_1234:
  "normalizeAndRemoveCommas (Text [0x31, 0x32, 0x33, 0x34]) = [0x31, 0x32, 0x33, 0x34]"
  by (simp add: normalize_defs)

lemma verdict_1234:
  "decimalPlaces p = None \<Longrightarrow> min_prop p = None \<Longrightarrow> max_prop p = None
   \<Longrightarrow> validationVerdict p [0x31, 0x32, 0x33, 0x34] = (False, [])"
  by (simp add: validationVerdict_def matchesNumericFormat_def dropMinus_def isDigit_def
      Number_1234 isNaN_def rangeCheck_def)

text \<open>
  Claim C8 as stated fails: the value is 1234, shown as 1,234; the user deletes the
  comma, the edit normalizes to the same 1234, and \<open>onValueChange\<close> is called all the same.
\<close>

theorem unchanged_edit_notifies_counterexample:
  "handleInternalChange
     \<lparr>required = False, allowDecimal = True, decimalPlaces = None, min_prop = None,
      max_prop = None, onValueChange = True, muiOnChange = False, muiOnBlur = False\<rparr>
     [0x31, 0x32, 0x33, 0x34]
     \<lparr>internalValue = [0x31, 0x32, 0x33, 0x34], error = False, internalHelperText = [],
      isComposing = False\<rparr>
   = (\<lparr>internalValue = [0x31, 0x32, 0x33, 0x34], error = False, internalHelperText = [],
       isComposing = False\<rparr>,
      [ValueChange [0x31, 0x32, 0x33, 0x34]])"
  by (simp add: handleInternalChange_def validateAndSetError_def normalize_1234 verdict_1234
      Let_def)

end
